theory Spec2Isabelle
  imports Main
begin

section \<open>The appointment form of the patient frontend\<close>

text \<open>
  A shallow embedding of \<^verbatim>\<open>Frontend-Patient/src/components/AppointmentForm.jsx\<close>.
  The component keeps fifteen \<^verbatim>\<open>useState\<close> cells; they are the fields of one record.
  Every event handler of the component is a function from the state before the event to the
  state after it, and the two asynchronous functions (\<^verbatim>\<open>fetchDoctors\<close>,
  \<^verbatim>\<open>handleAppointment\<close>) also return the list of effects they perform, in order.
  What the network answers is an argument of these two functions.
\<close>

subsection \<open>JavaScript values\<close>

text \<open>
  The values that reach the component's state, the request body and the notifications:
  strings, booleans, \<^verbatim>\<open>undefined\<close> and \<^verbatim>\<open>null\<close>. Numbers and objects never
  occur in the positions modelled with this type, provided the two endpoints answer with
  string messages and string doctor attributes, as their interface says.
\<close>

datatype jsval = JUndefined | JNull | JBool bool | JStr string

text \<open>\<^verbatim>\<open>ToBoolean\<close>: what \<^verbatim>\<open>!x\<close>, \<^verbatim>\<open>x && y\<close>, \<^verbatim>\<open>x || y\<close> and \<^verbatim>\<open>x ? a : b\<close> test.\<close>

fun truthy :: "jsval \<Rightarrow> bool" where
  "truthy JUndefined = False"
| "truthy JNull = False"
| "truthy (JBool b) = b"
| "truthy (JStr s) = (s \<noteq> [])"

text \<open>\<^verbatim>\<open>ToString\<close>, as a template literal \<^verbatim>\<open>`${x}`\<close> applies it.\<close>

fun toStr :: "jsval \<Rightarrow> string" where
  "toStr JUndefined = ''undefined''"
| "toStr JNull = ''null''"
| "toStr (JBool b) = (if b then ''true'' else ''false'')"
| "toStr (JStr s) = s"

definition js_and :: "jsval \<Rightarrow> jsval \<Rightarrow> jsval" where
  \<comment> \<open>\<^verbatim>\<open>a && b\<close>\<close>
  "js_and a b = (if truthy a then b else a)"

definition js_or :: "jsval \<Rightarrow> jsval \<Rightarrow> jsval" where
  \<comment> \<open>\<^verbatim>\<open>a || b\<close>\<close>
  "js_or a b = (if truthy a then a else b)"

text \<open>
  \<^verbatim>\<open>s.split(sep)\<close> for a separator of one character: the pieces between the occurrences of
  the separator, empty pieces included; the empty string gives one empty piece.
\<close>

fun js_split :: "char \<Rightarrow> string \<Rightarrow> string list" where
  "js_split sep [] = [[]]"
| "js_split sep (c # cs) =
     (if c = sep then [] # js_split sep cs
      else (case js_split sep cs of
              [] \<Rightarrow> [[c]]
            | w # ws \<Rightarrow> (c # w) # ws))"

text \<open>
  Reading position \<open>i\<close> of an array of strings, as the destructuring
  \<^verbatim>\<open>const [fName, lName] = parts\<close> does: \<^verbatim>\<open>undefined\<close> past the end.
\<close>

definition js_index :: "string list \<Rightarrow> nat \<Rightarrow> jsval" where
  "js_index xs i = (if i < length xs then JStr (xs ! i) else JUndefined)"

text \<open>
  \<^verbatim>\<open>[...new Set(xs)]\<close>: a \<^verbatim>\<open>Set\<close> keeps its elements in insertion order, and adding an element
  that is already there changes nothing.
\<close>

definition set_add :: "'a list \<Rightarrow> 'a \<Rightarrow> 'a list" where
  "set_add s x = (if x \<in> set s then s else s @ [x])"

definition new_Set :: "'a list \<Rightarrow> 'a list" where
  "new_Set xs = foldl set_add [] xs"

subsection \<open>State\<close>

text \<open>A doctor as the list endpoint returns it; only these three attributes are read.\<close>

record doctor =
  firstName :: string
  lastName :: string
  doctrDptmnt :: string

text \<open>
  The state cells, in the order of their \<^verbatim>\<open>useState\<close> calls. The inputs write
  \<^verbatim>\<open>e.target.value\<close>, a string, into their cells; the two doctor-name cells receive the
  results of a destructuring and can hold \<^verbatim>\<open>undefined\<close>.
\<close>

record form_state =
  firstName :: string
  lastName :: string
  email :: string
  phone :: string
  aadhar :: string
  dob :: string
  gender :: string
  appointmentDate :: string
  department :: string
  doctorFirstName :: jsval
  doctorLastName :: jsval
  address :: string
  hasVisited :: bool
  doctors :: "doctor list"
  departments :: "string list"

definition initialState :: form_state where
  "initialState =
     \<lparr>firstName = '''', lastName = '''', email = '''', phone = '''', aadhar = '''',
      dob = '''', gender = '''', appointmentDate = '''', department = '''',
      doctorFirstName = JStr '''', doctorLastName = JStr '''', address = '''',
      hasVisited = False, doctors = [], departments = []\<rparr>"

subsection \<open>Effects and the answers of the network\<close>

datatype effect =
    PreventDefault
  | AxiosGet string
  | AxiosPost string "(string \<times> jsval) list"
  | ConsoleError string
  | ToastSuccess jsval
  | ToastError jsval

text \<open>
  How the list request of a mount is settled:
  \<^item> it resolves with a body whose \<^verbatim>\<open>doctors\<close> is an array of doctors;
  \<^item> it resolves with a body whose \<^verbatim>\<open>doctors\<close> is no array of doctors: the key is missing
    (a body such as \<^verbatim>\<open>{}\<close>, or a body that is not JSON and reaches the component as a
    string), or it holds \<^verbatim>\<open>null\<close>, a string, an object, or an array with a \<^verbatim>\<open>null\<close>
    among its elements;
  \<^item> it resolves with a body that is \<^verbatim>\<open>null\<close>;
  \<^item> it is rejected (no answer, or an answer with an error status).
\<close>

datatype get_outcome =
    GetResolved "doctor list"
  | GetResolvedNoArray
  | GetResolvedNull
  | GetRejected

text \<open>
  The cells once the list request is settled. \<^verbatim>\<open>setDoctors(data.doctors)\<close> stores whatever the
  body holds under \<^verbatim>\<open>doctors\<close>. \<open>Cells st\<close>: the doctors cell holds an array of doctors,
  and \<open>st\<close> gives all fifteen cells. \<open>DoctorsNotArray st\<close>: the doctors cell holds a value
  that is no array of doctors; \<open>st\<close> gives the other fourteen cells, and its field
  \<open>doctors\<close> is not the value of the cell.
\<close>

datatype cells = Cells form_state | DoctorsNotArray form_state

text \<open>
  Rendering reads \<^verbatim>\<open>doctors.filter((doc) => doc.doctrDptmnt === department)\<close>: on a value
  that is no array of doctors the call, or its callback at a \<^verbatim>\<open>null\<close> element, throws a
  \<^verbatim>\<open>TypeError\<close>; nothing in the component catches it, and no form is rendered.
\<close>

fun rendered :: "cells \<Rightarrow> form_state option" where
  "rendered (Cells st) = Some st"
| "rendered (DoctorsNotArray st) = None"

text \<open>
  The error the catch block of \<^verbatim>\<open>handleAppointment\<close> receives: without a response
  (a network error), with a response whose \<^verbatim>\<open>data\<close> is \<^verbatim>\<open>null\<close> or \<^verbatim>\<open>undefined\<close>, or with
  a response whose \<^verbatim>\<open>data.message\<close> reads as the given value (\<^verbatim>\<open>undefined\<close> when the body
  has no such key).
\<close>

datatype axios_error = NoResponse | ResponseNoData | ResponseData jsval

text \<open>
  The write request resolves with a body whose \<^verbatim>\<open>message\<close> reads as the given value, or is
  rejected with an error.
\<close>

datatype post_outcome = PostResolved jsval | PostRejected axios_error

fun error_message :: "axios_error \<Rightarrow> jsval" where
  \<comment> \<open>\<^verbatim>\<open>error.response?.data?.message\<close>\<close>
  "error_message NoResponse = JUndefined"
| "error_message ResponseNoData = JUndefined"
| "error_message (ResponseData m) = m"

subsection \<open>Loading the doctors\<close>

definition doctorsUrl :: string where
  "doctorsUrl = ''http://localhost:4000/api/v1/user/doctors''"

text \<open>
  The try block runs \<^verbatim>\<open>axios.get\<close>, \<^verbatim>\<open>setDoctors(data.doctors)\<close>, the computation of
  \<^verbatim>\<open>uniqueDepts\<close> and \<^verbatim>\<open>setDepartments(uniqueDepts)\<close>, in this order, and the catch block
  takes over at the first of them that throws:
  \<^item> a rejected request throws at \<^verbatim>\<open>axios.get\<close>, and a \<^verbatim>\<open>null\<close> body at the read
    \<^verbatim>\<open>data.doctors\<close>: no setter has run;
  \<^item> a \<^verbatim>\<open>doctors\<close> that is no array of doctors throws at \<^verbatim>\<open>data.doctors.map\<close>, after
    \<^verbatim>\<open>setDoctors\<close> has stored it and before \<^verbatim>\<open>setDepartments\<close> runs.
\<close>

definition fetchDoctors :: "get_outcome \<Rightarrow> form_state \<Rightarrow> cells \<times> effect list" where
  "fetchDoctors outcome st =
     (case outcome of
        GetResolved ds \<Rightarrow>
          (let uniqueDepts = new_Set (map doctrDptmnt ds)
           in (Cells (st\<lparr>doctors := ds, departments := uniqueDepts\<rparr>), [AxiosGet doctorsUrl]))
      | GetResolvedNoArray \<Rightarrow>
          (DoctorsNotArray st,
           [AxiosGet doctorsUrl,
            ConsoleError ''Error fetching doctors:'',
            ToastError (JStr ''Failed to load doctors list'')])
      | GetResolvedNull \<Rightarrow>
          (Cells st,
           [AxiosGet doctorsUrl,
            ConsoleError ''Error fetching doctors:'',
            ToastError (JStr ''Failed to load doctors list'')])
      | GetRejected \<Rightarrow>
          (Cells st,
           [AxiosGet doctorsUrl,
            ConsoleError ''Error fetching doctors:'',
            ToastError (JStr ''Failed to load doctors list'')]))"

subsection \<open>Submitting\<close>

definition appointmentUrl :: string where
  "appointmentUrl = ''http://localhost:4000/api/v1/appointment/post''"

definition appointmentBody :: "form_state \<Rightarrow> (string \<times> jsval) list" where
  "appointmentBody st =
     [(''firstName'', JStr (firstName st)),
      (''lastName'', JStr (lastName st)),
      (''email'', JStr (email st)),
      (''phone'', JStr (phone st)),
      (''aadhar'', JStr (aadhar st)),
      (''dob'', JStr (dob st)),
      (''gender'', JStr (gender st)),
      (''appointment_date'', JStr (appointmentDate st)),
      (''department'', JStr (department st)),
      (''doctor_firstName'', doctorFirstName st),
      (''doctor_lastName'', doctorLastName st),
      (''hasVisited'', JBool (hasVisited st)),
      (''address'', JStr (address st))]"

definition resetFields :: "form_state \<Rightarrow> form_state" where
  \<comment> \<open>the thirteen setter calls after \<^verbatim>\<open>toast.success\<close>\<close>
  "resetFields st =
     st\<lparr>firstName := '''', lastName := '''', email := '''', phone := '''', aadhar := '''',
        dob := '''', gender := '''', appointmentDate := '''', department := '''',
        doctorFirstName := JStr '''', doctorLastName := JStr '''',
        hasVisited := False, address := ''''\<rparr>"

definition handleAppointment :: "post_outcome \<Rightarrow> form_state \<Rightarrow> form_state \<times> effect list" where
  "handleAppointment outcome st =
     (case outcome of
        PostResolved message \<Rightarrow>
          (resetFields st,
           [PreventDefault, AxiosPost appointmentUrl (appointmentBody st), ToastSuccess message])
      | PostRejected error \<Rightarrow>
          (st,
           [PreventDefault, AxiosPost appointmentUrl (appointmentBody st),
            ToastError (js_or (error_message error) (JStr ''Something went wrong''))]))"

subsection \<open>The two dependent selectors\<close>

definition onDepartmentChange :: "string \<Rightarrow> form_state \<Rightarrow> form_state" where
  "onDepartmentChange v st =
     st\<lparr>department := v, doctorFirstName := JStr '''', doctorLastName := JStr ''''\<rparr>"

definition onDoctorChange :: "string \<Rightarrow> form_state \<Rightarrow> form_state" where
  "onDoctorChange v st =
     (let parts = js_split (CHR '' '') v;
          fName = js_index parts 0;
          lName = js_index parts 1
      in st\<lparr>doctorFirstName := fName, doctorLastName := lName\<rparr>)"

text \<open>What a \<^verbatim>\<open>select\<close> element is rendered with.\<close>

record select_option =
  opt_value :: string
  opt_label :: string

record select_el =
  sel_value :: string
  sel_disabled :: bool
  sel_options :: "select_option list"

definition departmentOption :: "string \<Rightarrow> select_option" where
  "departmentOption dept = \<lparr>opt_value = dept, opt_label = dept\<rparr>"

definition departmentSelect :: "form_state \<Rightarrow> select_el" where
  "departmentSelect st =
     \<lparr>sel_value = department st,
      sel_disabled = False,
      sel_options =
        \<lparr>opt_value = '''', opt_label = ''Select Department''\<rparr>
        # map departmentOption (departments st)\<rparr>"

definition doctorOption :: "doctor \<Rightarrow> select_option" where
  "doctorOption doc =
     \<lparr>opt_value = doctor.firstName doc @ '' '' @ doctor.lastName doc,
      opt_label = doctor.firstName doc @ '' '' @ doctor.lastName doc\<rparr>"

definition doctorSelect :: "form_state \<Rightarrow> select_el" where
  "doctorSelect st =
     \<lparr>sel_value =
        (if truthy (js_and (doctorFirstName st) (doctorLastName st))
         then toStr (doctorFirstName st) @ '' '' @ toStr (doctorLastName st)
         else ''''),
      sel_disabled = (\<not> truthy (JStr (department st))),
      sel_options =
        \<lparr>opt_value = '''', opt_label = ''Select Doctor''\<rparr>
        # map doctorOption (filter (\<lambda>doc. doctrDptmnt doc = department st) (doctors st))\<rparr>"

subsection \<open>The events of a mounted form\<close>

datatype event =
    ChangeFirstName string
  | ChangeLastName string
  | ChangeEmail string
  | ChangePhone string
  | ChangeAadhar string
  | ChangeDob string
  | ChangeGender string
  | ChangeAppointmentDate string
  | ChangeDepartment string
  | ChangeDoctor string
  | ChangeAddress string
  | ChangeHasVisited bool
  | Submit post_outcome

text \<open>
  The events the rendered form can deliver in a state: a \<^verbatim>\<open>select\<close> reports the value of one
  of its options, and a disabled one reports nothing. The text inputs are not restricted.
\<close>

fun offered :: "form_state \<Rightarrow> event \<Rightarrow> bool" where
  "offered st (ChangeGender v) = (v \<in> set ['''', ''Male'', ''Female'', ''Others''])"
| "offered st (ChangeDepartment v) =
     (v \<in> set (map opt_value (sel_options (departmentSelect st))))"
| "offered st (ChangeDoctor v) =
     (\<not> sel_disabled (doctorSelect st)
      \<and> v \<in> set (map opt_value (sel_options (doctorSelect st))))"
| "offered st _ = True"

fun handle :: "event \<Rightarrow> form_state \<Rightarrow> form_state" where
  "handle (ChangeFirstName v) st = st\<lparr>firstName := v\<rparr>"
| "handle (ChangeLastName v) st = st\<lparr>lastName := v\<rparr>"
| "handle (ChangeEmail v) st = st\<lparr>email := v\<rparr>"
| "handle (ChangePhone v) st = st\<lparr>phone := v\<rparr>"
| "handle (ChangeAadhar v) st = st\<lparr>aadhar := v\<rparr>"
| "handle (ChangeDob v) st = st\<lparr>dob := v\<rparr>"
| "handle (ChangeGender v) st = st\<lparr>gender := v\<rparr>"
| "handle (ChangeAppointmentDate v) st = st\<lparr>appointmentDate := v\<rparr>"
| "handle (ChangeDepartment v) st = onDepartmentChange v st"
| "handle (ChangeDoctor v) st = onDoctorChange v st"
| "handle (ChangeAddress v) st = st\<lparr>address := v\<rparr>"
| "handle (ChangeHasVisited b) st = st\<lparr>hasVisited := b\<rparr>"
| "handle (Submit outcome) st = fst (handleAppointment outcome st)"

text \<open>What handling an event performs besides writing cells.\<close>

fun effectsOf :: "event \<Rightarrow> form_state \<Rightarrow> effect list" where
  "effectsOf (Submit outcome) st = snd (handleAppointment outcome st)"
| "effectsOf _ st = []"

fun isSubmit :: "event \<Rightarrow> bool" where
  "isSubmit (Submit outcome) = True"
| "isSubmit _ = False"

text \<open>
  The state after a sequence of events and the effects performed on the way, \<open>None\<close> when
  one of the events cannot be delivered. A submission is taken with its answer: the setters
  that run when the answer arrives write constants, so the state they leave does not depend on
  what was typed while the request was pending, and every interleaving leaves a state that
  some sequence of this model leaves.
\<close>

fun run :: "event list \<Rightarrow> form_state \<Rightarrow> (form_state \<times> effect list) option" where
  "run [] st = Some (st, [])"
| "run (e # es) st =
     (if offered st e
      then (case run es (handle e st) of
              None \<Rightarrow> None
            | Some (st', fx) \<Rightarrow> Some (st', effectsOf e st @ fx))
      else None)"

text \<open>
  One mount: the form starts in its initial state and requests the doctors; the events
  \<open>es1\<close> arrive before the request is settled, the events \<open>es2\<close> after. The result is the
  cells at the end and the effects of the mount, those of one call together, the calls in the
  order in which they settle; \<open>None\<close> when an event cannot be delivered. A form whose
  render has thrown is not there to deliver any event.
\<close>

definition mountTrace ::
  "event list \<Rightarrow> get_outcome \<Rightarrow> event list \<Rightarrow> (cells \<times> effect list) option" where
  "mountTrace es1 outcome es2 =
     (case run es1 initialState of
        None \<Rightarrow> None
      | Some (st, fx1) \<Rightarrow>
          (case fetchDoctors outcome st of
             (Cells st', fx) \<Rightarrow>
               (case run es2 st' of
                  None \<Rightarrow> None
                | Some (st'', fx2) \<Rightarrow> Some (Cells st'', fx1 @ fx @ fx2))
           | (DoctorsNotArray st', fx) \<Rightarrow>
               (if es2 = [] then Some (DoctorsNotArray st', fx1 @ fx) else None)))"

text \<open>The form a mount ends with, when there is one.\<close>

definition mount :: "event list \<Rightarrow> get_outcome \<Rightarrow> event list \<Rightarrow> form_state option" where
  "mount es1 outcome es2 =
     (case mountTrace es1 outcome es2 of
        None \<Rightarrow> None
      | Some (c, fx) \<Rightarrow> rendered c)"

fun isAxiosPost :: "effect \<Rightarrow> bool" where
  "isAxiosPost (AxiosPost url body) = True"
| "isAxiosPost _ = False"

fun isToast :: "effect \<Rightarrow> bool" where
  "isToast (ToastSuccess m) = True"
| "isToast (ToastError m) = True"
| "isToast _ = False"

section \<open>Properties\<close>

subsection \<open>Splitting and the insertion-ordered set\<close>

lemma js_split_nonempty: "js_split sep s \<noteq> []"
  by (induction s) (auto split: list.splits)

lemma js_split_no_sep: "sep \<notin> set w \<Longrightarrow> js_split sep w = [w]"
  by (induction w) auto

lemma js_split_first:
  "sep \<notin> set w \<Longrightarrow> js_split sep (w @ sep # rest) = w # js_split sep rest"
  by (induction w) auto

lemma js_split_pieces: "w \<in> set (js_split sep s) \<Longrightarrow> sep \<notin> set w"
  by (induction s arbitrary: w) (auto split: if_splits list.splits)

text \<open>
  When neither name of a doctor holds a space, choosing the doctor's option gives the two
  names back.
\<close>

lemma onDoctorChange_simple_names:
  assumes "CHR '' '' \<notin> set f" and "CHR '' '' \<notin> set l"
  shows "onDoctorChange (f @ '' '' @ l) st
           = st\<lparr>doctorFirstName := JStr f, doctorLastName := JStr l\<rparr>"
  using assms
  by (simp add: onDoctorChange_def js_split_first js_split_no_sep js_index_def)

lemma foldl_set_add_set: "set (foldl set_add acc xs) = set acc \<union> set xs"
  by (induction xs arbitrary: acc) (auto simp: set_add_def)

lemma foldl_set_add_distinct: "distinct acc \<Longrightarrow> distinct (foldl set_add acc xs)"
  by (induction xs arbitrary: acc) (auto simp: set_add_def)

lemma new_Set_set: "set (new_Set xs) = set xs"
  by (simp add: new_Set_def foldl_set_add_set)

lemma new_Set_distinct: "distinct (new_Set xs)"
  by (simp add: new_Set_def foldl_set_add_distinct)

lemma new_Set_length: "length (new_Set xs) = card (set xs)"
  using distinct_card [OF new_Set_distinct, of xs] by (simp add: new_Set_set)

subsection \<open>Sequences of events\<close>

lemma run_append:
  "run (es1 @ es2) st =
     (case run es1 st of
        None \<Rightarrow> None
      | Some (s, fx1) \<Rightarrow>
          (case run es2 s of None \<Rightarrow> None | Some (s', fx2) \<Rightarrow> Some (s', fx1 @ fx2)))"
  by (induction es1 arbitrary: st) (auto split: option.splits)

lemma run_snoc:
  assumes "run es st = Some (st', fx)"
  shows "run (es @ [e]) st
           = (if offered st' e then Some (handle e st', fx @ effectsOf e st') else None)"
  using assms by (simp add: run_append)

text \<open>
  While no doctor has been loaded, the department selector offers its placeholder only, so
  no event can set a department.
\<close>

lemma handle_keeps_empty:
  assumes "offered st e"
    and "doctors st = []" and "departments st = []" and "department st = []"
  shows "doctors (handle e st) = [] \<and> departments (handle e st) = []
       \<and> department (handle e st) = []"
  using assms
  by (cases e)
     (auto simp: departmentSelect_def onDepartmentChange_def onDoctorChange_def Let_def
                 handleAppointment_def resetFields_def split: post_outcome.splits)

lemma run_keeps_empty:
  assumes "run es st = Some (st', fx)"
    and "doctors st = []" and "departments st = []" and "department st = []"
  shows "doctors st' = [] \<and> departments st' = [] \<and> department st' = []"
  using assms
proof (induction es arbitrary: st fx)
  case Nil
  then show ?case by simp
next
  case (Cons e es)
  from Cons.prems(1) obtain fx' where off: "offered st e"
    and rest: "run es (handle e st) = Some (st', fx')"
    by (auto split: if_splits option.splits)
  from handle_keeps_empty [OF off Cons.prems(2-4)] Cons.IH [OF rest] show ?case by blast
qed

text \<open>Only submissions perform effects.\<close>

lemma run_without_submit:
  assumes "run es st = Some (st', fx)" and "\<forall>e \<in> set es. \<not> isSubmit e"
  shows "fx = []"
  using assms
proof (induction es arbitrary: st fx)
  case Nil
  then show ?case by simp
next
  case (Cons e es)
  from Cons.prems(1) obtain fx' where rest: "run es (handle e st) = Some (st', fx')"
    and fx: "fx = effectsOf e st @ fx'"
    by (auto split: if_splits option.splits)
  from Cons.prems(2) have "effectsOf e st = []" by (cases e) simp_all
  moreover from Cons.IH [OF rest] Cons.prems(2) have "fx' = []" by simp
  ultimately show ?case using fx by simp
qed

subsection \<open>A list request that fails before any setter has run\<close>

text \<open>
  When the request is rejected, or resolves with a \<^verbatim>\<open>null\<close> body, the mount goes on as the
  events alone would have it: the failure adds its three effects, one of them a notification,
  and writes no cell. The doctor list and the department list stay empty, the department
  selector offers its placeholder only and the doctor selector stays disabled.
\<close>

lemma failed_request_keeps_the_form:
  assumes "outcome = GetRejected \<or> outcome = GetResolvedNull"
    and "run es1 initialState = Some (st1, fx1)"
    and "run es2 st1 = Some (st2, fx2)"
  shows "mountTrace es1 outcome es2
           = Some (Cells st2,
                   fx1 @ [AxiosGet ''http://localhost:4000/api/v1/user/doctors'',
                          ConsoleError ''Error fetching doctors:'',
                          ToastError (JStr ''Failed to load doctors list'')] @ fx2)"
    and "mount es1 outcome es2 = Some st2"
    and "doctors st2 = [] \<and> departments st2 = [] \<and> department st2 = ''''"
    and "sel_options (departmentSelect st2)
           = [\<lparr>opt_value = '''', opt_label = ''Select Department''\<rparr>]"
    and "sel_disabled (doctorSelect st2)"
proof -
  have e1: "doctors st1 = [] \<and> departments st1 = [] \<and> department st1 = []"
    by (rule run_keeps_empty [OF assms(2)]) (simp_all add: initialState_def)
  then show e2: "doctors st2 = [] \<and> departments st2 = [] \<and> department st2 = ''''"
    using run_keeps_empty [OF assms(3)] by simp
  show t: "mountTrace es1 outcome es2
           = Some (Cells st2,
                   fx1 @ [AxiosGet ''http://localhost:4000/api/v1/user/doctors'',
                          ConsoleError ''Error fetching doctors:'',
                          ToastError (JStr ''Failed to load doctors list'')] @ fx2)"
    using assms by (auto simp: mountTrace_def fetchDoctors_def doctorsUrl_def)
  then show "mount es1 outcome es2 = Some st2"
    by (simp add: mount_def)
  from e2 show "sel_options (departmentSelect st2)
                  = [\<lparr>opt_value = '''', opt_label = ''Select Department''\<rparr>]"
    by (simp add: departmentSelect_def)
  from e2 show "sel_disabled (doctorSelect st2)"
    by (simp add: doctorSelect_def)
qed

text \<open>Without a submission among the events, that notification is the only one of the mount.\<close>

lemma failed_request_one_notification:
  assumes "outcome = GetRejected \<or> outcome = GetResolvedNull"
    and "run es1 initialState = Some (st1, fx1)"
    and "run es2 st1 = Some (st2, fx2)"
    and "\<forall>e \<in> set (es1 @ es2). \<not> isSubmit e"
  shows "mountTrace es1 outcome es2
           = Some (Cells st2,
                   [AxiosGet ''http://localhost:4000/api/v1/user/doctors'',
                    ConsoleError ''Error fetching doctors:'',
                    ToastError (JStr ''Failed to load doctors list'')])"
proof -
  from assms(4) have "fx1 = []" and "fx2 = []"
    using run_without_submit [OF assms(2)] run_without_submit [OF assms(3)] by simp_all
  with failed_request_keeps_the_form(1) [OF assms(1-3)] show ?thesis by simp
qed

text \<open>
  After such a failure every input still writes its cell and a submission is still sent. The
  department selector has nothing but its placeholder to choose, and the doctor selector,
  being disabled, delivers nothing.
\<close>

lemma failed_request_form_still_works:
  assumes "outcome = GetRejected \<or> outcome = GetResolvedNull"
    and "run es1 initialState = Some (st1, fx1)"
    and "run es2 st1 = Some (st2, fx2)"
  shows "mount es1 outcome (es2 @ [ChangeFirstName v]) = Some (st2\<lparr>firstName := v\<rparr>)"
    and "mount es1 outcome (es2 @ [ChangeLastName v]) = Some (st2\<lparr>lastName := v\<rparr>)"
    and "mount es1 outcome (es2 @ [ChangeEmail v]) = Some (st2\<lparr>email := v\<rparr>)"
    and "mount es1 outcome (es2 @ [ChangePhone v]) = Some (st2\<lparr>phone := v\<rparr>)"
    and "mount es1 outcome (es2 @ [ChangeAadhar v]) = Some (st2\<lparr>aadhar := v\<rparr>)"
    and "mount es1 outcome (es2 @ [ChangeDob v]) = Some (st2\<lparr>dob := v\<rparr>)"
    and "mount es1 outcome (es2 @ [ChangeGender v])
           = (if v \<in> set ['''', ''Male'', ''Female'', ''Others'']
              then Some (st2\<lparr>gender := v\<rparr>) else None)"
    and "mount es1 outcome (es2 @ [ChangeAppointmentDate v])
           = Some (st2\<lparr>appointmentDate := v\<rparr>)"
    and "mount es1 outcome (es2 @ [ChangeDepartment v])
           = (if v = ''''
              then Some (st2\<lparr>department := '''', doctorFirstName := JStr '''',
                               doctorLastName := JStr ''''\<rparr>)
              else None)"
    and "mount es1 outcome (es2 @ [ChangeDoctor v]) = None"
    and "mount es1 outcome (es2 @ [ChangeAddress v]) = Some (st2\<lparr>address := v\<rparr>)"
    and "mount es1 outcome (es2 @ [ChangeHasVisited b]) = Some (st2\<lparr>hasVisited := b\<rparr>)"
    and "mount es1 outcome (es2 @ [Submit (PostResolved m)]) = Some initialState"
    and "mount es1 outcome (es2 @ [Submit (PostRejected err)]) = Some st2"
proof -
  have e1: "doctors st1 = [] \<and> departments st1 = [] \<and> department st1 = []"
    by (rule run_keeps_empty [OF assms(2)]) (simp_all add: initialState_def)
  have e2: "doctors st2 = [] \<and> departments st2 = [] \<and> department st2 = []"
    using e1 run_keeps_empty [OF assms(3)] by simp
  have step: "mount es1 outcome (es2 @ [e])
                = (if offered st2 e then Some (handle e st2) else None)" for e
    using assms(1,2) run_snoc [OF assms(3), of e]
    by (auto simp: mount_def mountTrace_def fetchDoctors_def)
  have reset: "resetFields st2 = initialState"
    using e2 by (cases st2) (simp add: resetFields_def initialState_def)
  show "mount es1 outcome (es2 @ [ChangeFirstName v]) = Some (st2\<lparr>firstName := v\<rparr>)"
    by (simp add: step)
  show "mount es1 outcome (es2 @ [ChangeLastName v]) = Some (st2\<lparr>lastName := v\<rparr>)"
    by (simp add: step)
  show "mount es1 outcome (es2 @ [ChangeEmail v]) = Some (st2\<lparr>email := v\<rparr>)"
    by (simp add: step)
  show "mount es1 outcome (es2 @ [ChangePhone v]) = Some (st2\<lparr>phone := v\<rparr>)"
    by (simp add: step)
  show "mount es1 outcome (es2 @ [ChangeAadhar v]) = Some (st2\<lparr>aadhar := v\<rparr>)"
    by (simp add: step)
  show "mount es1 outcome (es2 @ [ChangeDob v]) = Some (st2\<lparr>dob := v\<rparr>)"
    by (simp add: step)
  show "mount es1 outcome (es2 @ [ChangeGender v])
          = (if v \<in> set ['''', ''Male'', ''Female'', ''Others'']
             then Some (st2\<lparr>gender := v\<rparr>) else None)"
    by (simp add: step)
  show "mount es1 outcome (es2 @ [ChangeAppointmentDate v])
          = Some (st2\<lparr>appointmentDate := v\<rparr>)"
    by (simp add: step)
  show "mount es1 outcome (es2 @ [ChangeDepartment v])
          = (if v = ''''
             then Some (st2\<lparr>department := '''', doctorFirstName := JStr '''',
                              doctorLastName := JStr ''''\<rparr>)
             else None)"
    using e2 by (simp add: step departmentSelect_def onDepartmentChange_def)
  show "mount es1 outcome (es2 @ [ChangeDoctor v]) = None"
    using e2 by (simp add: step doctorSelect_def)
  show "mount es1 outcome (es2 @ [ChangeAddress v]) = Some (st2\<lparr>address := v\<rparr>)"
    by (simp add: step)
  show "mount es1 outcome (es2 @ [ChangeHasVisited b]) = Some (st2\<lparr>hasVisited := b\<rparr>)"
    by (simp add: step)
  show "mount es1 outcome (es2 @ [Submit (PostResolved m)]) = Some initialState"
    by (simp add: step handleAppointment_def reset)
  show "mount es1 outcome (es2 @ [Submit (PostRejected err)]) = Some st2"
    by (simp add: step handleAppointment_def)
qed

subsection \<open>Choosing a doctor\<close>

text \<open>
  C1. The claim: the handler of the doctor selector splits the chosen option at its first
  space, so that ``Jane Doe'' gives the names ``Jane'' and ``Doe'', and ``Mary Ann Smith''
  gives ``Mary'' and ``Ann Smith''. The handler splits at every space and keeps the first two
  pieces: for ``Jane Doe'' the result is the claimed one, for ``Mary Ann Smith'' the last name
  becomes ``Ann'' and ``Smith'' is dropped. The option ``Mary Ann Smith'' is the one the form
  renders for a doctor named ``Mary'' ``Ann Smith''; after it is chosen, the value the selector
  is given, ``Mary Ann'', is the value of none of its options.
\<close>

theorem doctor_option_split_keeps_two_pieces:
  "doctorFirstName (onDoctorChange ''Jane Doe'' st) = JStr ''Jane''
   \<and> doctorLastName (onDoctorChange ''Jane Doe'' st) = JStr ''Doe''
   \<and> doctorFirstName (onDoctorChange ''Mary Ann Smith'' st) = JStr ''Mary''
   \<and> doctorLastName (onDoctorChange ''Mary Ann Smith'' st) = JStr ''Ann''
   \<and> doctorLastName (onDoctorChange ''Mary Ann Smith'' st) \<noteq> JStr ''Ann Smith''
   \<and> opt_value (doctorOption \<lparr>doctor.firstName = ''Mary'', doctor.lastName = ''Ann Smith'',
                                doctrDptmnt = ''Cardiology''\<rparr>) = ''Mary Ann Smith''
   \<and> map_option (\<lambda>s. (doctorFirstName s, doctorLastName s, sel_value (doctorSelect s),
                        map opt_value (sel_options (doctorSelect s))))
        (mount []
           (GetResolved [\<lparr>doctor.firstName = ''Mary'', doctor.lastName = ''Ann Smith'',
                          doctrDptmnt = ''Cardiology''\<rparr>])
           [ChangeDepartment ''Cardiology'', ChangeDoctor ''Mary Ann Smith''])
       = Some (JStr ''Mary'', JStr ''Ann'', ''Mary Ann'', ['''', ''Mary Ann Smith''])"
  by (simp add: onDoctorChange_def js_index_def mount_def mountTrace_def fetchDoctors_def
                new_Set_def set_add_def initialState_def departmentSelect_def
                departmentOption_def doctorSelect_def doctorOption_def onDepartmentChange_def
                js_and_def)

text \<open>
  C9. Choosing the placeholder option of the doctor selector, whose value is the empty string,
  sets \<^verbatim>\<open>doctorFirstName\<close> to the empty string and \<^verbatim>\<open>doctorLastName\<close> to \<^verbatim>\<open>undefined\<close>,
  not to the empty string: splitting the empty string gives one piece, and the second name of
  the destructuring has nothing to read.
\<close>

theorem placeholder_doctor_sets_undefined:
  "opt_value (hd (sel_options (doctorSelect st))) = ''''
   \<and> js_split (CHR '' '') '''' = ['''']
   \<and> doctorFirstName (onDoctorChange '''' st) = JStr ''''
   \<and> doctorLastName (onDoctorChange '''' st) = JUndefined
   \<and> doctorLastName (onDoctorChange '''' st) \<noteq> JStr ''''
   \<and> handle (ChangeDoctor '''') st = onDoctorChange '''' st"
  by (simp add: doctorSelect_def onDoctorChange_def js_index_def)

subsection \<open>Department and doctor selectors\<close>

text \<open>
  C2. Whatever the two doctor-name cells held, changing the department to any value stores
  that value in \<^verbatim>\<open>department\<close> and sets both doctor-name cells to the empty string.
\<close>

theorem department_change_clears_doctor:
  "department (onDepartmentChange v st) = v
   \<and> doctorFirstName (onDepartmentChange v st) = JStr ''''
   \<and> doctorLastName (onDepartmentChange v st) = JStr ''''
   \<and> handle (ChangeDepartment v) st = onDepartmentChange v st"
  by (simp add: onDepartmentChange_def)

text \<open>
  C3. When the list request resolves with the doctors \<open>ds\<close>, the department list holds
  every \<^verbatim>\<open>doctrDptmnt\<close> value of \<open>ds\<close> once and nothing else: it has as many entries as
  \<open>ds\<close> has distinct departments, and the department selector renders one option for each
  of them after its placeholder.
\<close>

theorem departments_are_the_unique_values:
  "\<exists>st'. fst (fetchDoctors (GetResolved ds) st) = Cells st'
     \<and> doctors st' = ds
     \<and> set (departments st') = doctrDptmnt ` set ds
     \<and> distinct (departments st')
     \<and> length (departments st') = card (doctrDptmnt ` set ds)
     \<and> sel_options (departmentSelect st')
         = \<lparr>opt_value = '''', opt_label = ''Select Department''\<rparr>
           # map departmentOption (departments st')
     \<and> map opt_value (tl (sel_options (departmentSelect st'))) = departments st'
     \<and> length (tl (sel_options (departmentSelect st'))) = card (doctrDptmnt ` set ds)"
proof (intro exI conjI)
  show "fst (fetchDoctors (GetResolved ds) st)
          = Cells (st\<lparr>doctors := ds, departments := new_Set (map doctrDptmnt ds)\<rparr>)"
    by (simp add: fetchDoctors_def)
  have v: "map (opt_value \<circ> departmentOption) xs = xs" for xs
    by (induction xs) (simp_all add: departmentOption_def)
  show "doctors (st\<lparr>doctors := ds, departments := new_Set (map doctrDptmnt ds)\<rparr>) = ds"
    by simp
  show "set (departments (st\<lparr>doctors := ds, departments := new_Set (map doctrDptmnt ds)\<rparr>))
          = doctrDptmnt ` set ds"
    by (simp add: new_Set_set)
  show "distinct (departments (st\<lparr>doctors := ds, departments := new_Set (map doctrDptmnt ds)\<rparr>))"
    by (simp add: new_Set_distinct)
  show "length (departments (st\<lparr>doctors := ds, departments := new_Set (map doctrDptmnt ds)\<rparr>))
          = card (doctrDptmnt ` set ds)"
    by (simp add: new_Set_length)
  show "sel_options (departmentSelect
                       (st\<lparr>doctors := ds, departments := new_Set (map doctrDptmnt ds)\<rparr>))
          = \<lparr>opt_value = '''', opt_label = ''Select Department''\<rparr>
            # map departmentOption
                (departments (st\<lparr>doctors := ds, departments := new_Set (map doctrDptmnt ds)\<rparr>))"
    by (simp add: departmentSelect_def)
  show "map opt_value
          (tl (sel_options (departmentSelect
                 (st\<lparr>doctors := ds, departments := new_Set (map doctrDptmnt ds)\<rparr>))))
          = departments (st\<lparr>doctors := ds, departments := new_Set (map doctrDptmnt ds)\<rparr>)"
    by (simp add: departmentSelect_def v)
  show "length
          (tl (sel_options (departmentSelect
                 (st\<lparr>doctors := ds, departments := new_Set (map doctrDptmnt ds)\<rparr>))))
          = card (doctrDptmnt ` set ds)"
    by (simp add: departmentSelect_def new_Set_length)
qed

text \<open>
  C4. In every state the doctor selector is disabled exactly when \<^verbatim>\<open>department\<close> is the
  empty string, and after its placeholder it lists the loaded doctors whose
  \<^verbatim>\<open>doctrDptmnt\<close> equals \<^verbatim>\<open>department\<close>, in the order in which they were loaded.
\<close>

theorem doctor_selector_follows_department:
  "sel_disabled (doctorSelect st) = (department st = '''')
   \<and> sel_options (doctorSelect st)
       = \<lparr>opt_value = '''', opt_label = ''Select Doctor''\<rparr>
         # map doctorOption (filter (\<lambda>doc. doctrDptmnt doc = department st) (doctors st))
   \<and> map opt_label (tl (sel_options (doctorSelect st)))
       = map (\<lambda>doc. doctor.firstName doc @ '' '' @ doctor.lastName doc)
           (filter (\<lambda>doc. doctrDptmnt doc = department st) (doctors st))"
  by (simp add: doctorSelect_def doctorOption_def comp_def)

subsection \<open>Submission\<close>

text \<open>
  C5. Whatever the answer, a submission performs one write request. Its body holds the
  thirteen fields of the form under their own names, except that \<^verbatim>\<open>appointmentDate\<close> is sent
  as \<^verbatim>\<open>appointment_date\<close>, \<^verbatim>\<open>doctorFirstName\<close> as \<^verbatim>\<open>doctor_firstName\<close> and
  \<^verbatim>\<open>doctorLastName\<close> as \<^verbatim>\<open>doctor_lastName\<close>.
\<close>

theorem submit_posts_the_form_once:
  "filter isAxiosPost (snd (handleAppointment outcome st))
     = [AxiosPost ''http://localhost:4000/api/v1/appointment/post''
          [(''firstName'', JStr (firstName st)),
           (''lastName'', JStr (lastName st)),
           (''email'', JStr (email st)),
           (''phone'', JStr (phone st)),
           (''aadhar'', JStr (aadhar st)),
           (''dob'', JStr (dob st)),
           (''gender'', JStr (gender st)),
           (''appointment_date'', JStr (appointmentDate st)),
           (''department'', JStr (department st)),
           (''doctor_firstName'', doctorFirstName st),
           (''doctor_lastName'', doctorLastName st),
           (''hasVisited'', JBool (hasVisited st)),
           (''address'', JStr (address st))]]
   \<and> hd (snd (handleAppointment outcome st)) = PreventDefault"
  by (cases outcome) (simp_all add: handleAppointment_def appointmentBody_def appointmentUrl_def)

text \<open>
  C6. When the write request resolves with the message \<open>m\<close>, the one notification shown is
  the success notification \<open>m\<close>, and every field of the form is back at its initial value:
  the strings empty, \<^verbatim>\<open>hasVisited\<close> false, and both selectors showing their placeholder.
\<close>

theorem success_resets_every_field:
  "filter isToast (snd (handleAppointment (PostResolved m) st)) = [ToastSuccess m]
   \<and> firstName (fst (handleAppointment (PostResolved m) st)) = ''''
   \<and> lastName (fst (handleAppointment (PostResolved m) st)) = ''''
   \<and> email (fst (handleAppointment (PostResolved m) st)) = ''''
   \<and> phone (fst (handleAppointment (PostResolved m) st)) = ''''
   \<and> aadhar (fst (handleAppointment (PostResolved m) st)) = ''''
   \<and> dob (fst (handleAppointment (PostResolved m) st)) = ''''
   \<and> gender (fst (handleAppointment (PostResolved m) st)) = ''''
   \<and> appointmentDate (fst (handleAppointment (PostResolved m) st)) = ''''
   \<and> department (fst (handleAppointment (PostResolved m) st)) = ''''
   \<and> doctorFirstName (fst (handleAppointment (PostResolved m) st)) = JStr ''''
   \<and> doctorLastName (fst (handleAppointment (PostResolved m) st)) = JStr ''''
   \<and> address (fst (handleAppointment (PostResolved m) st)) = ''''
   \<and> hasVisited (fst (handleAppointment (PostResolved m) st)) = False
   \<and> sel_value (departmentSelect (fst (handleAppointment (PostResolved m) st))) = ''''
   \<and> sel_value (doctorSelect (fst (handleAppointment (PostResolved m) st))) = ''''"
  by (simp add: handleAppointment_def resetFields_def departmentSelect_def doctorSelect_def
                js_and_def)

text \<open>
  C7, as amended. When the write request is rejected, the state is left as it was and one
  error notification is shown. Its text is the message of the error response when that
  message is truthy (a string that is not empty), and ``Something went wrong'' otherwise:
  when there is no response, no data, no message, or a message that is the empty string.
\<close>

theorem failure_keeps_the_form:
  "handleAppointment (PostRejected err) st
     = (st, [PreventDefault,
             AxiosPost appointmentUrl (appointmentBody st),
             ToastError (if truthy (error_message err) then error_message err
                         else JStr ''Something went wrong'')])
   \<and> filter isToast (snd (handleAppointment (PostRejected err) st))
       = [ToastError (if truthy (error_message err) then error_message err
                      else JStr ''Something went wrong'')]"
  by (simp add: handleAppointment_def js_or_def)

text \<open>
  C7 as first stated promises the server's message whenever the error response carries one.
  An error response whose message is the empty string carries one, and the notification shows
  the fallback text instead.
\<close>

theorem empty_server_message_counterexample:
  "error_message (ResponseData (JStr '''')) = JStr ''''
   \<and> filter isToast (snd (handleAppointment (PostRejected (ResponseData (JStr ''''))) initialState))
       = [ToastError (JStr ''Something went wrong'')]
   \<and> ToastError (JStr '''')
       \<notin> set (snd (handleAppointment (PostRejected (ResponseData (JStr ''''))) initialState))"
  by (simp add: handleAppointment_def js_or_def)

text \<open>
  C10. A successful submission writes the thirteen fields of the form and nothing else: the
  loaded doctors and the department list are the ones from before, the department selector
  keeps its options, and no list request is made.
\<close>

theorem success_keeps_the_doctor_list:
  "doctors (fst (handleAppointment (PostResolved m) st)) = doctors st
   \<and> departments (fst (handleAppointment (PostResolved m) st)) = departments st
   \<and> sel_options (departmentSelect (fst (handleAppointment (PostResolved m) st)))
       = sel_options (departmentSelect st)
   \<and> AxiosGet doctorsUrl \<notin> set (snd (handleAppointment (PostResolved m) st))
   \<and> fst (handleAppointment (PostResolved m) st)
       = initialState\<lparr>doctors := doctors st, departments := departments st\<rparr>"
  by (simp add: handleAppointment_def resetFields_def departmentSelect_def initialState_def)

subsection \<open>A list request that fails after the doctors cell is written\<close>

text \<open>
  C8. The claim: on every mount on which loading the doctors fails, one error notification is
  shown, the doctor list and the department list stay empty, the doctor selector stays
  disabled and the form remains interactive. The catch block shows the notification in every
  case, but it also runs when the request resolves with a body whose \<^verbatim>\<open>doctors\<close> is no
  array of doctors: \<^verbatim>\<open>setDoctors\<close> has then stored that value, the render that follows
  throws, and no form is left to take any event. A rejected request on the same mount leaves
  the form in place, with the same effects, and the form goes on taking its inputs.
\<close>

theorem malformed_doctor_list_breaks_the_form:
  "fetchDoctors GetResolvedNoArray st
     = (DoctorsNotArray st,
        [AxiosGet ''http://localhost:4000/api/v1/user/doctors'',
         ConsoleError ''Error fetching doctors:'',
         ToastError (JStr ''Failed to load doctors list'')])
   \<and> rendered (fst (fetchDoctors GetResolvedNoArray st)) = None
   \<and> mountTrace [] GetResolvedNoArray []
       = Some (DoctorsNotArray initialState,
               [AxiosGet ''http://localhost:4000/api/v1/user/doctors'',
                ConsoleError ''Error fetching doctors:'',
                ToastError (JStr ''Failed to load doctors list'')])
   \<and> mount [] GetResolvedNoArray [] = None
   \<and> mountTrace [] GetResolvedNoArray [ChangeFirstName ''A''] = None
   \<and> mountTrace [] GetResolvedNoArray [Submit outcome] = None
   \<and> mountTrace [] GetRejected [ChangeFirstName ''A'']
       = Some (Cells (initialState\<lparr>firstName := ''A''\<rparr>),
               [AxiosGet ''http://localhost:4000/api/v1/user/doctors'',
                ConsoleError ''Error fetching doctors:'',
                ToastError (JStr ''Failed to load doctors list'')])
   \<and> mount [] GetRejected [] = Some initialState
   \<and> mount [ChangeFirstName ''A''] GetRejected
        [ChangeLastName ''B'', ChangeEmail ''c@d.e'', ChangePhone ''1'', ChangeAadhar ''2'',
         ChangeDob ''2000-01-01'', ChangeGender ''Male'', ChangeAppointmentDate ''2026-01-01'',
         ChangeDepartment '''', ChangeAddress ''F'', ChangeHasVisited True,
         Submit (PostRejected NoResponse)]
       = Some \<lparr>firstName = ''A'', lastName = ''B'', email = ''c@d.e'', phone = ''1'',
                aadhar = ''2'', dob = ''2000-01-01'', gender = ''Male'',
                appointmentDate = ''2026-01-01'', department = '''',
                doctorFirstName = JStr '''', doctorLastName = JStr '''', address = ''F'',
                hasVisited = True, doctors = [], departments = []\<rparr>
   \<and> mount [ChangeFirstName ''A''] GetResolvedNoArray
        [ChangeLastName ''B'', ChangeEmail ''c@d.e'', ChangePhone ''1'', ChangeAadhar ''2'',
         ChangeDob ''2000-01-01'', ChangeGender ''Male'', ChangeAppointmentDate ''2026-01-01'',
         ChangeDepartment '''', ChangeAddress ''F'', ChangeHasVisited True,
         Submit (PostRejected NoResponse)]
       = None"
  by (simp add: fetchDoctors_def mountTrace_def mount_def doctorsUrl_def initialState_def
                departmentSelect_def onDepartmentChange_def handleAppointment_def)

end
